theory Spec2Isabelle
  imports
    Complex_Main
    "HOL-Library.Multiset"
    "HOL-Library.Char_ord"
    "HOL-Library.List_Lexorder"
begin

section \<open>Data model\<close>

text \<open>
  The three programs (\<^verbatim>\<open>analyze_expenses.py\<close>, \<^verbatim>\<open>visualize_expenses.py\<close>,
  \<^verbatim>\<open>dashboard.py\<close>) work on one pandas DataFrame read from a spreadsheet with the
  columns date, item, amount and category (the source's labels are Chinese; the field
  names below are their translations).

  A row of a well-typed frame is a record. Amounts are exact rationals: an integer column
  (as in the source's sample data) and a decimal column are both covered, and sums are
  exact, so that the only rounding in the model is the one the source asks for by name
  (\<^verbatim>\<open>.round(2)\<close>). Text is a byte string compared lexicographically, which for UTF-8
  is Python's code point order. A date is the calendar triple of a pandas Timestamp.
\<close>

record stamp =
  year_of :: nat
  month_of :: nat
  day_of :: nat

record ledger =
  date :: stamp
  item :: string
  amount :: rat
  category :: string

text \<open>The columns that \<^verbatim>\<open>load_data\<close> of the dashboard derives from the date.\<close>

record loaded = ledger +
  year_month :: string
  month :: nat
  year :: nat

section \<open>The dashboard's filter (dashboard.py, main, lines 351-358)\<close>

text \<open>
  \<^verbatim>\<open>
  if selected_categories and selected_months:
      df_filtered = df[(df[category].isin(selected_categories)) &
                       (df[year_month].isin(selected_months))]
  else:
      df_filtered = df
  \<close>
  The two selections are the Python lists returned by the multiselect widgets; a list is
  true when it is not empty. Boolean indexing keeps the rows in their order.
\<close>

definition apply_filter ::
  "string list \<Rightarrow> string list \<Rightarrow> ('a loaded_scheme) list \<Rightarrow> ('a loaded_scheme) list" where
  "apply_filter selected_categories selected_months df =
     (if selected_categories \<noteq> [] \<and> selected_months \<noteq> []
      then filter (\<lambda>r. category r \<in> set selected_categories \<and>
                        year_month r \<in> set selected_months) df
      else df)"

text \<open>The filter as the specification words it: each dimension restricts on its own.\<close>

definition spec_keeps :: "string list \<Rightarrow> string list \<Rightarrow> 'a loaded_scheme \<Rightarrow> bool" where
  "spec_keeps cats months r \<longleftrightarrow>
     (cats = [] \<or> category r \<in> set cats) \<and> (months = [] \<or> year_month r \<in> set months)"

text \<open>Sample rows used by the concrete checks below.\<close>

definition row_lunch :: loaded where
  "row_lunch = \<lparr>date = \<lparr>year_of = 2024, month_of = 1, day_of = 1\<rparr>, item = ''lunch'',
     amount = 150, category = ''food'', year_month = ''2024-01'', month = 1, year = 2024\<rparr>"

definition row_transit :: loaded where
  "row_transit = \<lparr>date = \<lparr>year_of = 2024, month_of = 1, day_of = 2\<rparr>, item = ''transit'',
     amount = 30, category = ''transport'', year_month = ''2024-01'', month = 1, year = 2024\<rparr>"

definition row_movie :: loaded where
  "row_movie = \<lparr>date = \<lparr>year_of = 2024, month_of = 2, day_of = 1\<rparr>, item = ''movie'',
     amount = 280, category = ''entertainment'', year_month = ''2024-02'', month = 2,
     year = 2024\<rparr>"

section \<open>The pandas operations the source calls\<close>

text \<open>
  Failures are values. The first five are the Python exceptions the source can raise in
  the modelled statements; the last three are the error kinds of the specification, which
  no statement of the source constructs.
\<close>

datatype failure =
    IndexError | KeyError | ValueError | TypeError | AttributeError
  | SchemaError | ParseError | NoDataError

text \<open>
  \<^verbatim>\<open>round(2)\<close> on a float column is numpy's: scale by 100, round to the nearest integer
  with halves going to the even neighbour, scale back.
\<close>

definition rint :: "rat \<Rightarrow> int" where
  "rint x =
     (let f = \<lfloor>x\<rfloor>; d = x - of_int f
      in if d < 1 / 2 then f else if 1 / 2 < d then f + 1 else if even f then f else f + 1)"

definition round2 :: "rat \<Rightarrow> rat" where
  "round2 x = of_int (rint (x * 100)) / 100"

text \<open>\<^verbatim>\<open>groupby\<close> (with its default \<^verbatim>\<open>sort=True\<close>) lists each key once, ascending.\<close>

definition group_keys :: "'k::linorder list \<Rightarrow> 'k list" where
  "group_keys ks = sort (remdups ks)"

definition groupby_sum :: "('r \<Rightarrow> 'k::linorder) \<Rightarrow> ('r \<Rightarrow> rat) \<Rightarrow> 'r list \<Rightarrow> ('k \<times> rat) list" where
  "groupby_sum key val df =
     map (\<lambda>k. (k, sum_list (map val (filter (\<lambda>r. key r = k) df)))) (group_keys (map key df))"

text \<open>
  \<^verbatim>\<open>sort_values(col, ascending=False)\<close>: pandas reverses the rows, sorts their positions
  ascending by the column with numpy's default sort kind, and reverses the result. The
  default kind keeps no promise about rows with equal keys; the model takes the position
  sort to be an insertion sort (what numpy's scalar code does on short arrays), which
  keeps them in their order. Only the relative order of rows with equal keys depends on
  this choice: the properties below that speak of a sorted summary hold for every order
  of such rows, and the concrete summaries they evaluate have no equal totals.
  \<^verbatim>\<open>sort_values(col)\<close> and \<^verbatim>\<open>sort_index()\<close> sort ascending.
\<close>

definition sort_values_desc :: "('r \<Rightarrow> 'k::linorder) \<Rightarrow> 'r list \<Rightarrow> 'r list" where
  "sort_values_desc col df = rev (sort_key col (rev df))"

definition sort_values_asc :: "('r \<Rightarrow> 'k::linorder) \<Rightarrow> 'r list \<Rightarrow> 'r list" where
  "sort_values_asc col df = sort_key col df"

text \<open>
  \<^verbatim>\<open>nlargest(n, col)\<close> with its default \<^verbatim>\<open>keep='first'\<close>: the rows in descending
  order of the column, rows with equal values in their order in the frame (pandas negates
  the column and sorts the positions with a merge sort), cut to the first \<open>n\<close>; a
  non-positive \<open>n\<close> gives the empty frame.
\<close>

definition nlargest :: "int \<Rightarrow> ('r \<Rightarrow> rat) \<Rightarrow> 'r list \<Rightarrow> 'r list" where
  "nlargest n col df = (if n \<le> 0 then [] else take (nat n) (sort_key (\<lambda>r. - col r) df))"

text \<open>
  \<^verbatim>\<open>pivot_table(values, index, columns, aggfunc='sum', fill_value=0)\<close>: one row per index
  key and one column per column key, both ascending; a cell holds the sum of the group,
  and the fill value where the group has no row.
\<close>

definition pivot_cell :: "('r \<Rightarrow> rat) \<Rightarrow> 'r list \<Rightarrow> rat" where
  "pivot_cell val g = (case g of [] \<Rightarrow> 0 | _ # _ \<Rightarrow> sum_list (map val g))"

definition pivot_table ::
  "('r \<Rightarrow> rat) \<Rightarrow> ('r \<Rightarrow> 'i::linorder) \<Rightarrow> ('r \<Rightarrow> 'c::linorder) \<Rightarrow> 'r list
     \<Rightarrow> ('i \<times> ('c \<times> rat) list) list" where
  "pivot_table val idx col df =
     map (\<lambda>i. (i, map (\<lambda>c. (c, pivot_cell val (filter (\<lambda>r. idx r = i \<and> col r = c) df)))
                    (group_keys (map col df))))
         (group_keys (map idx df))"

section \<open>analyze_expenses.py\<close>

text \<open>
  Lines 34-41:
  \<^verbatim>\<open>
  category_summary = df.groupby(category)[amount].agg(
      [(total, 'sum'), (count, 'count'), (mean, 'mean')]).round(2)
  category_summary = category_summary.sort_values(total, ascending=False)
  \<close>
\<close>

record category_stats =
  label :: string
  total_spend :: rat
  n_entries :: nat
  mean_spend :: rat

definition agg_group :: "string \<Rightarrow> rat list \<Rightarrow> category_stats" where
  "agg_group k g =
     \<lparr>label = k, total_spend = sum_list g, n_entries = length g,
      mean_spend = sum_list g / of_nat (length g)\<rparr>"

definition groupby_agg :: "('a ledger_scheme) list \<Rightarrow> category_stats list" where
  "groupby_agg df =
     map (\<lambda>k. agg_group k (map amount (filter (\<lambda>r. category r = k) df)))
         (group_keys (map category df))"

definition round_stats :: "category_stats \<Rightarrow> category_stats" where
  "round_stats s = s\<lparr>total_spend := round2 (total_spend s), mean_spend := round2 (mean_spend s)\<rparr>"

definition category_summary :: "('a ledger_scheme) list \<Rightarrow> category_stats list" where
  "category_summary df = sort_values_desc total_spend (map round_stats (groupby_agg df))"

text \<open>
  Lines 46-48 and 68-69: the leading category is the label at position 0 of the summary's
  index, and its figures are read back by that label.
  \<^verbatim>\<open>
  max_category = category_summary.index[0]
  max_amount = category_summary.loc[max_category, total]
  \<close>
  Position 0 of an empty index raises \<^verbatim>\<open>IndexError\<close>; \<^verbatim>\<open>loc\<close> raises \<^verbatim>\<open>KeyError\<close> for
  a label that is not in the index.
\<close>

definition leading_category :: "category_stats list \<Rightarrow> failure + category_stats" where
  "leading_category summary =
     (case summary of
        [] \<Rightarrow> Inl IndexError
      | s # _ \<Rightarrow>
          (case find (\<lambda>t. label t = label s) summary of
             None \<Rightarrow> Inl KeyError
           | Some t \<Rightarrow> Inr t))"

text \<open>The value \<^verbatim>\<open>analyze_expenses\<close> returns: the summary, the leading label, its total.\<close>

definition analyze_expenses ::
  "('a ledger_scheme) list \<Rightarrow> failure + (category_stats list \<times> string \<times> rat)" where
  "analyze_expenses df =
     (let summary = category_summary df
      in case leading_category summary of
           Inl e \<Rightarrow> Inl e
         | Inr t \<Rightarrow> Inr (summary, label t, total_spend t))"

section \<open>dashboard.py: the aggregations\<close>

text \<open>
  \<^verbatim>\<open>create_category_pie_chart\<close>, lines 157-158:
  \<^verbatim>\<open>
  category_summary = df.groupby(category)[amount].sum().reset_index()
  category_summary = category_summary.sort_values(amount, ascending=False)
  \<close>
  (\<^verbatim>\<open>create_category_pie_chart\<close> of visualize_expenses.py, line 28, computes the same
  sums in the same order.)
\<close>

definition create_category_pie_chart :: "('a ledger_scheme) list \<Rightarrow> (string \<times> rat) list" where
  "create_category_pie_chart df = sort_values_desc snd (groupby_sum category amount df)"



section \<open>Frames as objects: labelled columns of cells\<close>

text \<open>
  Where the source assigns to a column, the frame is a pandas object that its caller may
  share. A frame is then the list of its labelled columns; a cell is a number, a text, a
  Timestamp or a monthly Period (year and month). Missing cells (NaN, NaT) are not
  modelled. The labels are the UTF-8 bytes of the source's.
\<close>

datatype cell = Num rat | Text string | Stamp stamp | Period nat nat

type_synonym frame = "(string \<times> cell list) list"

definition col_date :: string where
  "col_date = [CHR 0xE6, CHR 0x97, CHR 0xA5, CHR 0xE6, CHR 0x9C, CHR 0x9F]"

definition col_item :: string where
  "col_item = [CHR 0xE9, CHR 0xA0, CHR 0x85, CHR 0xE7, CHR 0x9B, CHR 0xAE]"

definition col_amount :: string where
  "col_amount = [CHR 0xE9, CHR 0x87, CHR 0x91, CHR 0xE9, CHR 0xA1, CHR 0x8D]"

definition col_category :: string where
  "col_category = [CHR 0xE9, CHR 0xA1, CHR 0x9E, CHR 0xE5, CHR 0x88, CHR 0xA5]"

definition col_year_month :: string where
  "col_year_month = [CHR 0xE5, CHR 0xB9, CHR 0xB4, CHR 0xE6, CHR 0x9C, CHR 0x88]"

definition col_month :: string where
  "col_month = [CHR 0xE6, CHR 0x9C, CHR 0x88, CHR 0xE4, CHR 0xBB, CHR 0xBD]"

definition col_year :: string where
  "col_year = [CHR 0xE5, CHR 0xB9, CHR 0xB4, CHR 0xE4, CHR 0xBB, CHR 0xBD]"

definition columns :: "frame \<Rightarrow> string list" where
  "columns df = map fst df"

text \<open>\<^verbatim>\<open>df[c]\<close> raises \<^verbatim>\<open>KeyError\<close> for a label the frame does not have.\<close>

definition getitem :: "frame \<Rightarrow> string \<Rightarrow> failure + cell list" where
  "getitem df c = (case map_of df c of None \<Rightarrow> Inl KeyError | Some v \<Rightarrow> Inr v)"

text \<open>\<^verbatim>\<open>df[c] = values\<close> replaces the column in its place, or appends a new one.\<close>

fun setitem :: "frame \<Rightarrow> string \<Rightarrow> cell list \<Rightarrow> frame" where
  "setitem [] c v = [(c, v)]"
| "setitem ((c', v') # df) c v =
     (if c' = c then (c, v) # df else (c', v') # setitem df c v)"

text \<open>\<^verbatim>\<open>df[[c1, c2, ...]]\<close> is a new frame of the listed columns.\<close>

fun select_columns :: "string list \<Rightarrow> frame \<Rightarrow> failure + frame" where
  "select_columns [] df = Inr []"
| "select_columns (c # cs) df =
     (case getitem df c of
        Inl e \<Rightarrow> Inl e
      | Inr v \<Rightarrow> (case select_columns cs df of Inl e \<Rightarrow> Inl e | Inr r \<Rightarrow> Inr ((c, v) # r)))"

text \<open>
  \<^verbatim>\<open>pd.to_datetime\<close> keeps a Timestamp and converts any other cell in the library's
  way, which is a parameter: it gives the Timestamp or the exception the library raises.
  The whole conversion raises at the first cell that cannot be converted.
\<close>

type_synonym parser = "cell \<Rightarrow> failure + stamp"

definition to_datetime_cell :: "parser \<Rightarrow> cell \<Rightarrow> failure + stamp" where
  "to_datetime_cell parse c = (case c of Stamp s \<Rightarrow> Inr s | _ \<Rightarrow> parse c)"

fun to_datetime :: "parser \<Rightarrow> cell list \<Rightarrow> failure + stamp list" where
  "to_datetime parse [] = Inr []"
| "to_datetime parse (c # cs) =
     (case to_datetime_cell parse c of
        Inl e \<Rightarrow> Inl e
      | Inr s \<Rightarrow> (case to_datetime parse cs of Inl e \<Rightarrow> Inl e | Inr ss \<Rightarrow> Inr (s # ss)))"

text \<open>The \<^verbatim>\<open>.dt\<close> accessor needs a column of Timestamps.\<close>

fun dt :: "cell list \<Rightarrow> failure + stamp list" where
  "dt [] = Inr []"
| "dt (Stamp s # cs) = (case dt cs of Inl e \<Rightarrow> Inl e | Inr ss \<Rightarrow> Inr (s # ss))"
| "dt (_ # cs) = Inl AttributeError"

text \<open>Arithmetic on a column needs numbers.\<close>

fun numeric :: "cell list \<Rightarrow> failure + rat list" where
  "numeric [] = Inr []"
| "numeric (Num q # cs) = (case numeric cs of Inl e \<Rightarrow> Inl e | Inr qs \<Rightarrow> Inr (q # qs))"
| "numeric (_ # cs) = Inl TypeError"

fun texts :: "cell list \<Rightarrow> failure + string list" where
  "texts [] = Inr []"
| "texts (Text t # cs) = (case texts cs of Inl e \<Rightarrow> Inl e | Inr ts \<Rightarrow> Inr (t # ts))"
| "texts (_ # cs) = Inl TypeError"

text \<open>
  A monthly Period prints as the four digits of the year, a dash and the two digits of
  the month; pandas orders Periods by their ordinal, the number of months since 1970.
\<close>

definition digit :: "nat \<Rightarrow> char" where
  "digit n = char_of (48 + n mod 10)"

definition period_str :: "stamp \<Rightarrow> string" where
  "period_str s =
     [digit (year_of s div 1000), digit (year_of s div 100), digit (year_of s div 10),
      digit (year_of s), CHR ''-'', digit (month_of s div 10), digit (month_of s)]"

definition to_period :: "stamp \<Rightarrow> cell" where
  "to_period s = Period (year_of s) (month_of s)"

fun period_ordinals :: "cell list \<Rightarrow> failure + int list" where
  "period_ordinals [] = Inr []"
| "period_ordinals (Period y m # cs) =
     (case period_ordinals cs of
        Inl e \<Rightarrow> Inl e
      | Inr os \<Rightarrow> Inr (((int y - 1970) * 12 + int m - 1) # os))"
| "period_ordinals (_ # cs) = Inl TypeError"

text \<open>
  \<^verbatim>\<open>df[new] = f(df[date].dt)\<close>: read the date column back, take its Timestamps, store
  the derived column.
\<close>

definition assign_from_dt :: "frame \<Rightarrow> string \<Rightarrow> (stamp \<Rightarrow> cell) \<Rightarrow> failure + frame" where
  "assign_from_dt df new f =
     (case getitem df col_date of
        Inl e \<Rightarrow> Inl e
      | Inr cells \<Rightarrow>
          (case dt cells of Inl e \<Rightarrow> Inl e | Inr ds \<Rightarrow> Inr (setitem df new (map f ds))))"

section \<open>dashboard.py: load_data (lines 95-115)\<close>

text \<open>
  \<^verbatim>\<open>
  required_columns = [date, item, amount, category]
  if not all(col in df.columns for col in required_columns):
      st.error(...); return None
  df[date] = pd.to_datetime(df[date])
  df[year_month] = df[date].dt.to_period('M').astype(str)
  df[month] = df[date].dt.month
  df[year] = df[date].dt.year
  return df
  \<close>
  all of it inside \<^verbatim>\<open>try\<close>, with \<^verbatim>\<open>except Exception as e: st.error(...); return None\<close>.
  The argument is the frame \<^verbatim>\<open>read_excel\<close> has produced. A rejected load is Python's
  \<^verbatim>\<open>None\<close> together with the notice shown to the user.
\<close>

datatype notice = MissingColumns | ReadError failure

datatype outcome = Loaded frame | Rejected notice

definition required_columns :: "string list" where
  "required_columns = [col_date, col_item, col_amount, col_category]"

definition load_data :: "parser \<Rightarrow> frame \<Rightarrow> outcome" where
  "load_data parse df =
     (if \<not> list_all (\<lambda>col. col \<in> set (columns df)) required_columns
      then Rejected MissingColumns
      else
        (case getitem df col_date of
           Inl e \<Rightarrow> Rejected (ReadError e)
         | Inr cells \<Rightarrow>
         (case to_datetime parse cells of
           Inl e \<Rightarrow> Rejected (ReadError e)
         | Inr ds \<Rightarrow>
         (case assign_from_dt (setitem df col_date (map Stamp ds)) col_year_month
                 (\<lambda>s. Text (period_str s)) of
           Inl e \<Rightarrow> Rejected (ReadError e)
         | Inr df2 \<Rightarrow>
         (case assign_from_dt df2 col_month (\<lambda>s. Num (of_nat (month_of s))) of
           Inl e \<Rightarrow> Rejected (ReadError e)
         | Inr df3 \<Rightarrow>
         (case assign_from_dt df3 col_year (\<lambda>s. Num (of_nat (year_of s))) of
           Inl e \<Rightarrow> Rejected (ReadError e)
         | Inr df4 \<Rightarrow> Loaded df4))))))"

section \<open>Functions that assign to columns: a store of frames\<close>

text \<open>
  A Python variable holds a reference to a frame. The store is the list of the frames
  allocated so far and a reference is a position in it; a new frame goes to the end.
  Each function returns the store as it leaves it, also when it raises.
\<close>

type_synonym heap = "frame list"

text \<open>
  visualize_expenses.py, \<^verbatim>\<open>create_monthly_trend_chart(df, output_path)\<close>, lines 72-78:
  \<^verbatim>\<open>
  df[date] = pd.to_datetime(df[date])
  df[year_month] = df[date].dt.to_period('M')
  monthly_summary = df.groupby(year_month)[amount].sum().sort_index()
  \<close>
  The two assignments, which \<^verbatim>\<open>create_category_monthly_trend_chart\<close> repeats in its
  lines 136-137, write to the caller's frame. The monthly sums are keyed by the ordinal
  of the Period.
\<close>

definition assign_dates :: "parser \<Rightarrow> heap \<Rightarrow> nat \<Rightarrow> heap \<times> (failure + unit)" where
  "assign_dates parse h df =
     (case getitem (h ! df) col_date of
        Inl e \<Rightarrow> (h, Inl e)
      | Inr cells \<Rightarrow>
      (case to_datetime parse cells of
        Inl e \<Rightarrow> (h, Inl e)
      | Inr ds \<Rightarrow>
          (let h1 = h[df := setitem (h ! df) col_date (map Stamp ds)]
           in case assign_from_dt (h1 ! df) col_year_month to_period of
                Inl e \<Rightarrow> (h1, Inl e)
              | Inr df2 \<Rightarrow> (h1[df := df2], Inr ()))))"

definition month_amounts :: "frame \<Rightarrow> failure + (int \<times> rat) list" where
  "month_amounts df =
     (case getitem df col_year_month of
        Inl e \<Rightarrow> Inl e
      | Inr ps \<Rightarrow>
      (case period_ordinals ps of
        Inl e \<Rightarrow> Inl e
      | Inr os \<Rightarrow>
      (case getitem df col_amount of
        Inl e \<Rightarrow> Inl e
      | Inr cells \<Rightarrow>
      (case numeric cells of
        Inl e \<Rightarrow> Inl e
      | Inr qs \<Rightarrow> Inr (zip os qs)))))"

definition visualize_create_monthly_trend_chart ::
  "parser \<Rightarrow> heap \<Rightarrow> nat \<Rightarrow> heap \<times> (failure + (int \<times> rat) list)" where
  "visualize_create_monthly_trend_chart parse h df =
     (case assign_dates parse h df of
        (h', Inl e) \<Rightarrow> (h', Inl e)
      | (h', Inr _) \<Rightarrow>
          (case month_amounts (h' ! df) of
             Inl e \<Rightarrow> (h', Inl e)
           | Inr rows \<Rightarrow> (h', Inr (sort_values_asc fst (groupby_sum fst snd rows)))))"

text \<open>
  visualize_expenses.py, \<^verbatim>\<open>create_category_monthly_trend_chart\<close>, lines 136-149: the
  same two assignments, then the pivot table of the amounts by Period and category,
  sorted by its index.
\<close>

definition month_category_amounts :: "frame \<Rightarrow> failure + (int \<times> string \<times> rat) list" where
  "month_category_amounts df =
     (case month_amounts df of
        Inl e \<Rightarrow> Inl e
      | Inr rows \<Rightarrow>
      (case getitem df col_category of
        Inl e \<Rightarrow> Inl e
      | Inr cells \<Rightarrow>
      (case texts cells of
        Inl e \<Rightarrow> Inl e
      | Inr cs \<Rightarrow> Inr (map (\<lambda>((p, q), c). (p, c, q)) (zip rows cs)))))"

definition visualize_create_category_monthly_trend_chart ::
  "parser \<Rightarrow> heap \<Rightarrow> nat \<Rightarrow> heap \<times> (failure + (int \<times> (string \<times> rat) list) list)" where
  "visualize_create_category_monthly_trend_chart parse h df =
     (case assign_dates parse h df of
        (h', Inl e) \<Rightarrow> (h', Inl e)
      | (h', Inr _) \<Rightarrow>
          (case month_category_amounts (h' ! df) of
             Inl e \<Rightarrow> (h', Inl e)
           | Inr rows \<Rightarrow>
               (h', Inr (sort_values_asc fst
                          (pivot_table (\<lambda>r. snd (snd r)) fst (\<lambda>r. fst (snd r)) rows)))))"

text \<open>
  dashboard.py, \<^verbatim>\<open>create_top_expenses_table(df, n=10)\<close>, lines 270-276:
  \<^verbatim>\<open>
  top_expenses = df.nlargest(n, amount)[[date, item, category, amount]]
  top_expenses[date] = top_expenses[date].dt.strftime('%Y-%m-%d')
  top_expenses[amount] = top_expenses[amount].apply(lambda x: f'${x:,.0f}')
  top_expenses = top_expenses.reset_index(drop=True)
  top_expenses.index = top_expenses.index + 1
  return top_expenses
  \<close>
  \<^verbatim>\<open>nlargest\<close> picks row positions by the amount column (which must be numeric) and
  takes these rows of every column; the selection of the four columns is a new frame, to
  which the two assignments go; \<^verbatim>\<open>reset_index\<close> gives a new frame again. The two
  renderings are parameters, and the row labels (1, 2, ...) are not part of a frame here.
\<close>

definition take_rows :: "nat list \<Rightarrow> frame \<Rightarrow> frame" where
  "take_rows idx df = map (\<lambda>(c, v). (c, map (\<lambda>i. v ! i) idx)) df"

definition frame_nlargest :: "int \<Rightarrow> string \<Rightarrow> frame \<Rightarrow> failure + frame" where
  "frame_nlargest n c df =
     (case getitem df c of
        Inl e \<Rightarrow> Inl e
      | Inr cells \<Rightarrow>
          (case numeric cells of
             Inl e \<Rightarrow> Inl e
           | Inr qs \<Rightarrow> Inr (take_rows (nlargest n (\<lambda>i. qs ! i) [0..<length qs]) df)))"

definition create_top_expenses_table ::
  "(stamp \<Rightarrow> string) \<Rightarrow> (rat \<Rightarrow> string) \<Rightarrow> heap \<Rightarrow> nat \<Rightarrow> int \<Rightarrow> heap \<times> (failure + nat)" where
  "create_top_expenses_table strftime money h df n =
     (case frame_nlargest n col_amount (h ! df) of
        Inl e \<Rightarrow> (h, Inl e)
      | Inr largest \<Rightarrow>
      (case select_columns [col_date, col_item, col_category, col_amount] largest of
        Inl e \<Rightarrow> (h, Inl e)
      | Inr selected \<Rightarrow>
          (let top_expenses = length h; h1 = h @ [selected]
           in case (case getitem (h1 ! top_expenses) col_date of
                      Inl e \<Rightarrow> Inl e | Inr cells \<Rightarrow> dt cells) of
                Inl e \<Rightarrow> (h1, Inl e)
              | Inr ds \<Rightarrow>
                  (let h2 = h1[top_expenses :=
                             setitem (h1 ! top_expenses) col_date (map (\<lambda>s. Text (strftime s)) ds)]
                   in case (case getitem (h2 ! top_expenses) col_amount of
                              Inl e \<Rightarrow> Inl e | Inr cells \<Rightarrow> numeric cells) of
                        Inl e \<Rightarrow> (h2, Inl e)
                      | Inr qs \<Rightarrow>
                          (let h3 = h2[top_expenses :=
                                     setitem (h2 ! top_expenses) col_amount
                                       (map (\<lambda>q. Text (money q)) qs)]
                           in (h3 @ [h3 ! top_expenses], Inr (length h3)))))))"

section \<open>Reference quantities and sample data\<close>

text \<open>The exact sum of the amounts of one category, and the amounts that are whole hundredths.\<close>

definition exact_total :: "('a ledger_scheme) list \<Rightarrow> string \<Rightarrow> rat" where
  "exact_total df c = sum_list (map amount (filter (\<lambda>r. category r = c) df))"








text \<open>
  Sample sheets as \<^verbatim>\<open>read_excel\<close> gives them: a well-formed one, one whose amount is
  a text, one whose date is a text; and a conversion that accepts Timestamps only.
\<close>

definition sheet_sample :: frame where
  "sheet_sample =
     [(col_date, [Stamp \<lparr>year_of = 2024, month_of = 1, day_of = 1\<rparr>,
                  Stamp \<lparr>year_of = 2024, month_of = 1, day_of = 2\<rparr>,
                  Stamp \<lparr>year_of = 2024, month_of = 2, day_of = 1\<rparr>]),
      (col_item, [Text ''lunch'', Text ''transit'', Text ''movie'']),
      (col_amount, [Num 150, Num 30, Num 280]),
      (col_category, [Text ''food'', Text ''transport'', Text ''entertainment''])]"

definition sample_stamps :: "stamp list" where
  "sample_stamps =
     [\<lparr>year_of = 2024, month_of = 1, day_of = 1\<rparr>,
      \<lparr>year_of = 2024, month_of = 1, day_of = 2\<rparr>,
      \<lparr>year_of = 2024, month_of = 2, day_of = 1\<rparr>]"

definition sheet_text_amount :: frame where
  "sheet_text_amount =
     [(col_date, [Stamp \<lparr>year_of = 2024, month_of = 1, day_of = 1\<rparr>]),
      (col_item, [Text ''lunch'']),
      (col_amount, [Text ''twelve'']),
      (col_category, [Text ''food''])]"

definition sheet_text_date :: frame where
  "sheet_text_date =
     [(col_date, [Text ''someday'']),
      (col_item, [Text ''lunch'']),
      (col_amount, [Num 150]),
      (col_category, [Text ''food''])]"

definition stamps_only :: parser where
  "stamps_only c = Inl ValueError"

text \<open>
  The frame a successful load returns, in terms of the converted dates; and the calendar
  fields a pandas Timestamp can have.
\<close>

definition derived_frame :: "frame \<Rightarrow> stamp list \<Rightarrow> frame" where
  "derived_frame df ds =
     setitem (setitem (setitem (setitem df col_date (map Stamp ds))
        col_year_month (map (\<lambda>s. Text (period_str s)) ds))
        col_month (map (\<lambda>s. Num (of_nat (month_of s))) ds))
        col_year (map (\<lambda>s. Num (of_nat (year_of s))) ds)"

definition valid_stamp :: "stamp \<Rightarrow> bool" where
  "valid_stamp s \<longleftrightarrow>
     1677 \<le> year_of s \<and> year_of s \<le> 2262 \<and> 1 \<le> month_of s \<and> month_of s \<le> 12 \<and>
     1 \<le> day_of s \<and> day_of s \<le> 31"

text \<open>The well-formed sample sheet with a year-month column of Periods appended.\<close>

definition sheet_with_months :: frame where
  "sheet_with_months =
     sheet_sample @ [(col_year_month, [Period 2024 1, Period 2024 1, Period 2024 2])]"

section \<open>Properties\<close>

subsection \<open>Grouping and sorting: auxiliary facts\<close>











subsection \<open>Rounding, summaries and selection: auxiliary facts\<close>







lemma leading_category_Cons: "leading_category (s # rest) = Inr s"
  by (simp add: leading_category_def)




lemma pie_entry:
  "(c, t) \<in> set (create_category_pie_chart df) \<Longrightarrow> t = exact_total df c"
  by (auto simp: create_category_pie_chart_def sort_values_desc_def groupby_sum_def exact_total_def)






lemma sort_values_desc_sorted:
  "sorted_wrt (\<lambda>a b. col b \<le> col a) (sort_values_desc col df)"
proof -
  have "sorted (map col (sort_key col (rev df)))" by simp
  then have "sorted_wrt (\<lambda>a b. col a \<le> col b) (sort_key col (rev df))"
    by (simp only: sorted_map)
  then show ?thesis
    by (simp add: sort_values_desc_def sorted_wrt_rev)
qed

lemma category_summary_sorted:
  "sorted_wrt (\<lambda>a b. total_spend b \<le> total_spend a) (category_summary df)"
  unfolding category_summary_def by (rule sort_values_desc_sorted)

subsection \<open>Filtering\<close>

text \<open>
  C1 (as stated, refuted): the claim says that a record is kept exactly when it passes
  each non-empty selection, so that a non-empty category selection still restricts when
  the month selection is empty. With categories \<open>[food]\<close> and no month selected the
  source takes the \<^verbatim>\<open>else\<close> branch and keeps the transport row as well.
\<close>

theorem apply_filter_spec_counterexample:
  "\<not> (\<forall>r \<in> set [row_lunch, row_transit].
        r \<in> set (apply_filter [''food''] [] [row_lunch, row_transit])
          \<longleftrightarrow> spec_keeps [''food''] [] r)"
  by (simp add: apply_filter_def spec_keeps_def row_lunch_def row_transit_def)

text \<open>
  C1 (amended): the result is the input restricted to the rows that pass both
  selections when both selections are non-empty, and the whole input, in its order, as
  soon as either selection is empty. In particular a row of the input is kept if and only
  if one of the selections is empty or the row passes both.
\<close>

theorem apply_filter_gate:
  "apply_filter cats months df =
     filter (\<lambda>r. cats = [] \<or> months = [] \<or>
                 (category r \<in> set cats \<and> year_month r \<in> set months)) df"
  by (auto simp: apply_filter_def intro: filter_cong)

theorem apply_filter_gate_witness:
  "apply_filter [''food''] [''2024-01''] [row_lunch, row_transit, row_movie] = [row_lunch]
   \<and> apply_filter [''food''] [] [row_lunch, row_transit, row_movie]
       = [row_lunch, row_transit, row_movie]"
  using apply_filter_gate [of "[''food'']" "[''2024-01'']" "[row_lunch, row_transit, row_movie]"]
    apply_filter_gate [of "[''food'']" "[]" "[row_lunch, row_transit, row_movie]"]
  by (simp add: row_lunch_def row_transit_def row_movie_def)

subsection \<open>Conservation of the total\<close>




subsection \<open>Where the rounding happens\<close>




subsection \<open>The leading category\<close>

text \<open>
  C5 (as stated, refuted): the claim says that the leading category of an empty summary
  fails with the error kind NoDataError. The source reads position 0 of the empty index,
  which raises Python's IndexError; no statement of the source constructs a NoDataError.
\<close>

theorem leading_category_empty_counterexample:
  "leading_category [] \<noteq> Inl NoDataError"
  by (simp add: leading_category_def)

text \<open>
  C5 (amended): the leading category of an empty summary fails with IndexError (and so
  does \<^verbatim>\<open>analyze_expenses\<close> on a ledger without rows); on a non-empty summary it is
  the first element.
\<close>

theorem leading_category_first:
  "leading_category [] = Inl IndexError \<and>
   leading_category (s # rest) = Inr s \<and>
   analyze_expenses [] = Inl IndexError"
  by (simp add: leading_category_def analyze_expenses_def category_summary_def
      sort_values_desc_def groupby_agg_def group_keys_def)

theorem leading_category_first_witness:
  "leading_category
     [\<lparr>label = ''b'', total_spend = 20, n_entries = 1, mean_spend = 20\<rparr>,
      \<lparr>label = ''a'', total_spend = 10, n_entries = 1, mean_spend = 10\<rparr>]
   = Inr \<lparr>label = ''b'', total_spend = 20, n_entries = 1, mean_spend = 20\<rparr>"
  using leading_category_first
    [of "\<lparr>label = ''b'', total_spend = 20, n_entries = 1, mean_spend = 20\<rparr>"
        "[\<lparr>label = ''a'', total_spend = 10, n_entries = 1, mean_spend = 10\<rparr>]"]
  by blast


subsection \<open>The largest expenses\<close>



subsection \<open>The pivot table and its margins\<close>














subsection \<open>The loader\<close>

lemma labels_distinct:
  "distinct [col_date, col_item, col_amount, col_category, col_year_month, col_month, col_year]"
  by (simp add: col_date_def col_item_def col_amount_def col_category_def
      col_year_month_def col_month_def col_year_def)

lemma getitem_setitem_same: "getitem (setitem df c v) c = Inr v"
  by (induction df) (auto simp: getitem_def)

lemma getitem_setitem_other: "c' \<noteq> c \<Longrightarrow> getitem (setitem df c v) c' = getitem df c'"
  by (induction df) (auto simp: getitem_def)

lemma getitem_Inr_iff: "(\<exists>v. getitem df c = Inr v) \<longleftrightarrow> c \<in> set (columns df)"
  by (auto simp: getitem_def columns_def map_of_eq_None_iff split: option.splits)
     (metis map_of_eq_None_iff not_Some_eq)

lemma dt_map_Stamp: "dt (map Stamp ds) = Inr ds"
  by (induction ds) auto

lemma assign_from_dt_stamps:
  "getitem df col_date = Inr (map Stamp ds) \<Longrightarrow>
     assign_from_dt df new f = Inr (setitem df new (map f ds))"
  by (simp add: assign_from_dt_def dt_map_Stamp)

lemma to_datetime_length: "to_datetime parse cells = Inr ds \<Longrightarrow> length ds = length cells"
  by (induction cells arbitrary: ds) (auto split: sum.splits)

lemma to_datetime_fails_iff:
  "(\<exists>e. to_datetime parse cells = Inl e) \<longleftrightarrow>
     (\<exists>c\<in>set cells. \<exists>e. to_datetime_cell parse c = Inl e)"
  by (induction cells) (auto split: sum.splits)

lemma load_data_converted:
  assumes "set required_columns \<subseteq> set (columns df)"
    and "getitem df col_date = Inr cells"
  shows "load_data parse df =
     (case to_datetime parse cells of
        Inl e \<Rightarrow> Rejected (ReadError e)
      | Inr ds \<Rightarrow> Loaded (derived_frame df ds))"
proof (cases "to_datetime parse cells")
  case (Inl e)
  with assms show ?thesis
    by (simp add: load_data_def list_all_iff subset_iff)
next
  case (Inr ds)
  let ?d1 = "setitem df col_date (map Stamp ds)"
  let ?d2 = "setitem ?d1 col_year_month (map (\<lambda>s. Text (period_str s)) ds)"
  let ?d3 = "setitem ?d2 col_month (map (\<lambda>s. Num (of_nat (month_of s))) ds)"
  have g1: "getitem ?d1 col_date = Inr (map Stamp ds)"
    by (rule getitem_setitem_same)
  have g2: "getitem ?d2 col_date = Inr (map Stamp ds)"
    using labels_distinct by (simp add: getitem_setitem_other g1)
  have g3: "getitem ?d3 col_date = Inr (map Stamp ds)"
    using labels_distinct by (simp add: getitem_setitem_other g2)
  show ?thesis
    using assms Inr
    by (simp add: load_data_def list_all_iff subset_iff derived_frame_def
        assign_from_dt_stamps [OF g1] assign_from_dt_stamps [OF g2] assign_from_dt_stamps [OF g3])
qed

lemma load_data_missing:
  "load_data parse df = Rejected MissingColumns \<longleftrightarrow> \<not> set required_columns \<subseteq> set (columns df)"
proof (cases "set required_columns \<subseteq> set (columns df)")
  case True
  then have "col_date \<in> set (columns df)" by (simp add: required_columns_def)
  then obtain cells where "getitem df col_date = Inr cells"
    using getitem_Inr_iff by blast
  from load_data_converted [OF True this] True show ?thesis
    by (simp split: sum.splits)
next
  case False
  then show ?thesis by (auto simp: load_data_def list_all_iff)
qed

lemma derived_frame_columns:
  "getitem (derived_frame df ds) col_date = Inr (map Stamp ds) \<and>
   getitem (derived_frame df ds) col_year_month = Inr (map (\<lambda>s. Text (period_str s)) ds) \<and>
   getitem (derived_frame df ds) col_month = Inr (map (\<lambda>s. Num (of_nat (month_of s))) ds) \<and>
   getitem (derived_frame df ds) col_year = Inr (map (\<lambda>s. Num (of_nat (year_of s))) ds)"
  using labels_distinct
  by (simp add: derived_frame_def getitem_setitem_other getitem_setitem_same)

lemma derived_frame_other:
  "c \<notin> {col_date, col_year_month, col_month, col_year} \<Longrightarrow>
     getitem (derived_frame df ds) c = getitem df c"
  by (simp add: derived_frame_def getitem_setitem_other)


lemma digit_code: "of_char (digit n) = 48 + n mod 10"
proof -
  have "n mod 10 < 10" by simp
  then have "48 + n mod 10 < 256" by linarith
  then have "(48 + n mod 10) mod 256 = 48 + n mod 10" by (rule mod_less)
  then show ?thesis by (simp add: digit_def)
qed

lemma digit_eq_iff: "digit a = digit b \<longleftrightarrow> a mod 10 = b mod 10"
proof
  assume "digit a = digit b"
  then have "(of_char (digit a) :: nat) = of_char (digit b)" by simp
  then show "a mod 10 = b mod 10" by (simp add: digit_code)
next
  assume "a mod 10 = b mod 10"
  then show "digit a = digit b" by (simp add: digit_def)
qed

lemma digit_less_iff: "digit a < digit b \<longleftrightarrow> a mod 10 < b mod 10"
  by (simp add: less_char_def digit_code)

lemma leading_digit:
  fixes y :: nat
  shows "y < 10000 \<Longrightarrow> (y div 1000) mod 10 = y div 1000"
    and "y < 100 \<Longrightarrow> (y div 10) mod 10 = y div 10"
  by (simp_all add: less_mult_imp_div_less)

lemma pair_less:
  fixes a b c d :: nat
  assumes "b < 10" "d < 10"
  shows "10 * a + b < 10 * c + d \<longleftrightarrow> a < c \<or> (a = c \<and> b < d)"
  using assms by linarith

lemma pair_eq:
  fixes a b c d :: nat
  assumes "b < 10" "d < 10"
  shows "10 * a + b = 10 * c + d \<longleftrightarrow> a = c \<and> b = d"
proof
  assume eq: "10 * a + b = 10 * c + d"
  have "\<not> a < c" using eq pair_less [OF assms, of a c] by simp
  moreover have "\<not> c < a" using eq pair_less [OF assms(2,1), of c a] by simp
  ultimately have "a = c" by simp
  with eq show "a = c \<and> b = d" by simp
qed simp

lemma two_digits:
  fixes y z :: nat
  shows "y = z \<longleftrightarrow> y div 10 = z div 10 \<and> y mod 10 = z mod 10"
    and "y < z \<longleftrightarrow> y div 10 < z div 10 \<or> (y div 10 = z div 10 \<and> y mod 10 < z mod 10)"
proof -
  have y: "y = 10 * (y div 10) + y mod 10" and z: "z = 10 * (z div 10) + z mod 10" by simp_all
  have "y = z \<longleftrightarrow> 10 * (y div 10) + y mod 10 = 10 * (z div 10) + z mod 10"
    by simp
  also have "\<dots> \<longleftrightarrow> y div 10 = z div 10 \<and> y mod 10 = z mod 10"
    by (rule pair_eq) simp_all
  finally show "y = z \<longleftrightarrow> y div 10 = z div 10 \<and> y mod 10 = z mod 10" .
  have "y < z \<longleftrightarrow> 10 * (y div 10) + y mod 10 < 10 * (z div 10) + z mod 10"
    by simp
  also have "\<dots> \<longleftrightarrow> y div 10 < z div 10 \<or> (y div 10 = z div 10 \<and> y mod 10 < z mod 10)"
    by (rule pair_less) simp_all
  finally show "y < z \<longleftrightarrow> y div 10 < z div 10 \<or> (y div 10 = z div 10 \<and> y mod 10 < z mod 10)" .
qed

lemma digits_step:
  fixes y z :: nat
  shows "y div 10 = z div 10 \<longleftrightarrow>
           y div 100 = z div 100 \<and> (y div 10) mod 10 = (z div 10) mod 10"
    and "y div 100 = z div 100 \<longleftrightarrow>
           y div 1000 = z div 1000 \<and> (y div 100) mod 10 = (z div 100) mod 10"
    and "y div 10 < z div 10 \<longleftrightarrow>
           y div 100 < z div 100 \<or> (y div 100 = z div 100 \<and> (y div 10) mod 10 < (z div 10) mod 10)"
    and "y div 100 < z div 100 \<longleftrightarrow>
           y div 1000 < z div 1000 \<or> (y div 1000 = z div 1000 \<and> (y div 100) mod 10 < (z div 100) mod 10)"
proof -
  have a: "y div 10 div 10 = y div 100" "z div 10 div 10 = z div 100"
    "y div 100 div 10 = y div 1000" "z div 100 div 10 = z div 1000"
    by (simp_all add: div_mult2_eq [symmetric])
  show "y div 10 = z div 10 \<longleftrightarrow>
           y div 100 = z div 100 \<and> (y div 10) mod 10 = (z div 10) mod 10"
    using two_digits(1) [of "y div 10" "z div 10"] unfolding a .
  show "y div 100 = z div 100 \<longleftrightarrow>
           y div 1000 = z div 1000 \<and> (y div 100) mod 10 = (z div 100) mod 10"
    using two_digits(1) [of "y div 100" "z div 100"] unfolding a .
  show "y div 10 < z div 10 \<longleftrightarrow>
           y div 100 < z div 100 \<or> (y div 100 = z div 100 \<and> (y div 10) mod 10 < (z div 10) mod 10)"
    using two_digits(2) [of "y div 10" "z div 10"] unfolding a .
  show "y div 100 < z div 100 \<longleftrightarrow>
           y div 1000 < z div 1000 \<or> (y div 1000 = z div 1000 \<and> (y div 100) mod 10 < (z div 100) mod 10)"
    using two_digits(2) [of "y div 100" "z div 100"] unfolding a .
qed

lemma period_str_eq_iff:
  assumes "valid_stamp s" "valid_stamp t"
  shows "period_str s = period_str t \<longleftrightarrow> year_of s = year_of t \<and> month_of s = month_of t"
proof -
  have y: "year_of s < 10000" "year_of t < 10000" and m: "month_of s < 100" "month_of t < 100"
    using assms by (simp_all add: valid_stamp_def)
  have "period_str s = period_str t \<longleftrightarrow>
      (year_of s div 1000 = year_of t div 1000 \<and>
       (year_of s div 100) mod 10 = (year_of t div 100) mod 10 \<and>
       (year_of s div 10) mod 10 = (year_of t div 10) mod 10 \<and>
       year_of s mod 10 = year_of t mod 10) \<and>
      (month_of s div 10 = month_of t div 10 \<and> month_of s mod 10 = month_of t mod 10)"
    by (simp add: period_str_def digit_eq_iff leading_digit y m)
  also have "\<dots> \<longleftrightarrow> year_of s = year_of t \<and> month_of s = month_of t"
    using two_digits(1) [of "year_of s" "year_of t"] two_digits(1) [of "month_of s" "month_of t"]
      digits_step(1,2) [of "year_of s" "year_of t"]
    by blast
  finally show ?thesis .
qed

lemma period_str_less_iff:
  assumes "valid_stamp s" "valid_stamp t"
  shows "period_str s < period_str t \<longleftrightarrow>
     year_of s < year_of t \<or> (year_of s = year_of t \<and> month_of s < month_of t)"
proof -
  have y: "year_of s < 10000" "year_of t < 10000" and m: "month_of s < 100" "month_of t < 100"
    using assms by (simp_all add: valid_stamp_def)
  define a b c d e f where "a = year_of s div 1000" and "b = (year_of s div 100) mod 10"
    and "c = (year_of s div 10) mod 10" and "d = year_of s mod 10"
    and "e = month_of s div 10" and "f = month_of s mod 10"
  define a' b' c' d' e' f' where "a' = year_of t div 1000" and "b' = (year_of t div 100) mod 10"
    and "c' = (year_of t div 10) mod 10" and "d' = year_of t mod 10"
    and "e' = month_of t div 10" and "f' = month_of t mod 10"
  note defs = a_def b_def c_def d_def e_def f_def a'_def b'_def c'_def d'_def e'_def f'_def
  have str: "period_str s < period_str t \<longleftrightarrow>
      a < a' \<or> a = a' \<and> (b < b' \<or> b = b' \<and> (c < c' \<or> c = c' \<and> (d < d' \<or> d = d' \<and>
        (e < e' \<or> e = e' \<and> f < f'))))"
    unfolding defs
    by (simp add: period_str_def digit_eq_iff digit_less_iff leading_digit y m)
  have yl: "year_of s < year_of t \<longleftrightarrow>
      a < a' \<or> a = a' \<and> (b < b' \<or> b = b' \<and> (c < c' \<or> c = c' \<and> d < d'))"
    unfolding defs
    using two_digits [of "year_of s" "year_of t"] digits_step [of "year_of s" "year_of t"]
    by blast
  have ye: "year_of s = year_of t \<longleftrightarrow> a = a' \<and> b = b' \<and> c = c' \<and> d = d'"
    unfolding defs
    using two_digits [of "year_of s" "year_of t"] digits_step [of "year_of s" "year_of t"]
    by blast
  have ml: "month_of s < month_of t \<longleftrightarrow> e < e' \<or> e = e' \<and> f < f'"
    unfolding defs using two_digits(2) [of "month_of s" "month_of t"] by blast
  show ?thesis unfolding str yl ye ml by auto
qed


lemma sheet_text_amount_date:
  "getitem sheet_text_amount col_date = Inr [Stamp \<lparr>year_of = 2024, month_of = 1, day_of = 1\<rparr>]"
  by (simp add: getitem_def sheet_text_amount_def)

lemma sheet_text_amount_columns: "set required_columns \<subseteq> set (columns sheet_text_amount)"
  by (simp add: required_columns_def columns_def sheet_text_amount_def)

lemma derived_columns_apart: "col_amount \<notin> {col_date, col_year_month, col_month, col_year}"
  using labels_distinct by auto

lemma sheet_sample_columns: "set required_columns \<subseteq> set (columns sheet_sample)"
  by (simp add: required_columns_def columns_def sheet_sample_def)

lemma sheet_sample_date: "getitem sheet_sample col_date = Inr (map Stamp sample_stamps)"
  by (simp add: getitem_def sheet_sample_def sample_stamps_def)

lemma to_datetime_stamps: "to_datetime parse (map Stamp ds) = Inr ds"
  by (induction ds) (simp_all add: to_datetime_cell_def)

lemma load_data_sheet_sample:
  "load_data parse sheet_sample = Loaded (derived_frame sheet_sample sample_stamps)"
  by (simp add: load_data_converted [OF sheet_sample_columns sheet_sample_date] to_datetime_stamps)

lemma period_str_sample:
  "map period_str sample_stamps = [''2024-01'', ''2024-01'', ''2024-02'']"
  by code_simp

lemma period_str_new_year:
  "period_str \<lparr>year_of = 2024, month_of = 1, day_of = 1\<rparr> = ''2024-01''"
  by code_simp

lemma period_str_new_year_Suc:
  "period_str \<lparr>year_of = 2024, month_of = Suc 0, day_of = Suc 0\<rparr> = ''2024-01''"
  using period_str_new_year by simp

text \<open>
  C6 (as stated, refuted): the claim says that the loader fails when an amount cannot be
  converted to a number. \<^verbatim>\<open>load_data\<close> never looks at the amount column: a sheet with
  the four columns, a Timestamp date and the word \<open>twelve\<close> as its amount is loaded, with
  the text still in the amount column.
\<close>

theorem load_data_text_amount_counterexample:
  "load_data stamps_only sheet_text_amount =
     Loaded [(col_date, [Stamp \<lparr>year_of = 2024, month_of = 1, day_of = 1\<rparr>]),
             (col_item, [Text ''lunch'']),
             (col_amount, [Text ''twelve'']),
             (col_category, [Text ''food'']),
             (col_year_month, [Text ''2024-01'']),
             (col_month, [Num 1]),
             (col_year, [Num 2024])]"
proof -
  have "load_data stamps_only sheet_text_amount =
      Loaded (derived_frame sheet_text_amount [\<lparr>year_of = 2024, month_of = 1, day_of = 1\<rparr>])"
    by (simp add: load_data_converted [OF sheet_text_amount_columns sheet_text_amount_date]
        to_datetime_cell_def)
  moreover have "derived_frame sheet_text_amount [\<lparr>year_of = 2024, month_of = 1, day_of = 1\<rparr>] =
      [(col_date, [Stamp \<lparr>year_of = 2024, month_of = 1, day_of = 1\<rparr>]),
       (col_item, [Text ''lunch'']),
       (col_amount, [Text ''twelve'']),
       (col_category, [Text ''food'']),
       (col_year_month, [Text ''2024-01'']),
       (col_month, [Num 1]),
       (col_year, [Num 2024])]"
    unfolding derived_frame_def sheet_text_amount_def
    by (simp add: period_str_new_year_Suc)
       (simp add: col_date_def col_item_def col_amount_def col_category_def
          col_year_month_def col_month_def col_year_def)
  ultimately show ?thesis by simp
qed

text \<open>
  C6 (amended): \<^verbatim>\<open>load_data\<close> rejects the sheet with the missing-columns notice
  exactly when one of the four required columns is absent; with all four present it
  rejects the sheet with the read-error notice exactly when a date cell cannot be
  converted; in both cases it returns nothing (Python's \<^verbatim>\<open>None\<close>), never a part of
  the rows. When it loads, every row is kept and every column but the date and the three
  derived ones is returned as it was read; the amounts are neither converted nor checked.
\<close>

theorem load_data_outcomes:
  "(load_data parse df = Rejected MissingColumns \<longleftrightarrow>
      \<not> set required_columns \<subseteq> set (columns df)) \<and>
   (set required_columns \<subseteq> set (columns df) \<longrightarrow>
      (\<exists>cells. getitem df col_date = Inr cells \<and>
         ((\<exists>e. load_data parse df = Rejected (ReadError e)) \<longleftrightarrow>
            (\<exists>c\<in>set cells. \<exists>e. to_datetime_cell parse c = Inl e)) \<and>
         (\<forall>df'. load_data parse df = Loaded df' \<longrightarrow>
            (\<exists>ds. getitem df' col_date = Inr (map Stamp ds) \<and> length ds = length cells) \<and>
            (\<forall>c. c \<notin> {col_date, col_year_month, col_month, col_year} \<longrightarrow>
                 getitem df' c = getitem df c))))"
proof (intro conjI impI)
  show "load_data parse df = Rejected MissingColumns \<longleftrightarrow>
      \<not> set required_columns \<subseteq> set (columns df)"
    by (rule load_data_missing)
next
  assume req: "set required_columns \<subseteq> set (columns df)"
  then have "col_date \<in> set (columns df)" by (simp add: required_columns_def)
  then obtain cells where cells: "getitem df col_date = Inr cells"
    using getitem_Inr_iff by blast
  note conv = load_data_converted [OF req cells, of parse]
  have fails: "(\<exists>e. load_data parse df = Rejected (ReadError e)) \<longleftrightarrow>
      (\<exists>c\<in>set cells. \<exists>e. to_datetime_cell parse c = Inl e)"
    unfolding to_datetime_fails_iff [symmetric] conv
    by (cases "to_datetime parse cells") simp_all
  have loads: "\<forall>df'. load_data parse df = Loaded df' \<longrightarrow>
      (\<exists>ds. getitem df' col_date = Inr (map Stamp ds) \<and> length ds = length cells) \<and>
      (\<forall>c. c \<notin> {col_date, col_year_month, col_month, col_year} \<longrightarrow>
           getitem df' c = getitem df c)"
  proof (intro allI impI)
    fix df'
    assume "load_data parse df = Loaded df'"
    with conv obtain ds where ds: "to_datetime parse cells = Inr ds"
      and df': "df' = derived_frame df ds"
      by (cases "to_datetime parse cells") simp_all
    show "(\<exists>ds. getitem df' col_date = Inr (map Stamp ds) \<and> length ds = length cells) \<and>
      (\<forall>c. c \<notin> {col_date, col_year_month, col_month, col_year} \<longrightarrow>
           getitem df' c = getitem df c)"
      using derived_frame_columns [of df ds] to_datetime_length [OF ds]
        derived_frame_other [of _ df ds]
      by (auto simp: df')
  qed
  from cells fails loads
  show "\<exists>cells. getitem df col_date = Inr cells \<and>
         ((\<exists>e. load_data parse df = Rejected (ReadError e)) \<longleftrightarrow>
            (\<exists>c\<in>set cells. \<exists>e. to_datetime_cell parse c = Inl e)) \<and>
         (\<forall>df'. load_data parse df = Loaded df' \<longrightarrow>
            (\<exists>ds. getitem df' col_date = Inr (map Stamp ds) \<and> length ds = length cells) \<and>
            (\<forall>c. c \<notin> {col_date, col_year_month, col_month, col_year} \<longrightarrow>
                 getitem df' c = getitem df c))"
    by blast
qed

theorem load_data_outcomes_witness:
  "load_data stamps_only (tl sheet_sample) = Rejected MissingColumns \<and>
   (\<exists>e. load_data stamps_only sheet_text_date = Rejected (ReadError e)) \<and>
   (\<exists>df'. load_data stamps_only sheet_sample = Loaded df' \<and>
      getitem df' col_amount = getitem sheet_sample col_amount)"
proof (intro conjI)
  have "\<not> set required_columns \<subseteq> set (columns (tl sheet_sample))"
    by (simp add: required_columns_def columns_def sheet_sample_def
        col_date_def col_item_def col_amount_def col_category_def)
  with load_data_outcomes [of stamps_only "tl sheet_sample"]
  show "load_data stamps_only (tl sheet_sample) = Rejected MissingColumns" by blast
next
  have req: "set required_columns \<subseteq> set (columns sheet_text_date)"
    by (simp add: required_columns_def columns_def sheet_text_date_def)
  have cells: "getitem sheet_text_date col_date = Inr [Text ''someday'']"
    by (simp add: getitem_def sheet_text_date_def)
  have bad: "to_datetime_cell stamps_only (Text ''someday'') = Inl ValueError"
    by (simp add: to_datetime_cell_def stamps_only_def)
  from load_data_outcomes [of stamps_only sheet_text_date] req cells bad
  show "\<exists>e. load_data stamps_only sheet_text_date = Rejected (ReadError e)"
    by fastforce
next
  from load_data_outcomes [of stamps_only sheet_sample] sheet_sample_columns
    load_data_sheet_sample [of stamps_only] derived_columns_apart
  show "\<exists>df'. load_data stamps_only sheet_sample = Loaded df' \<and>
      getitem df' col_amount = getitem sheet_sample col_amount"
    by blast
qed

text \<open>
  C10: in the frame \<^verbatim>\<open>load_data\<close> returns, the year, month and year-month columns
  are computed row by row from the converted date of the same row: the year column holds
  its calendar year, the month column its calendar month, the year-month column the text
  of its monthly Period. For Timestamps (years 1677 to 2262, months 1 to 12) two rows have
  the same year-month text exactly when they have the same year and month, and the texts
  compare as the months do in time.
\<close>

theorem load_data_calendar_fields:
  assumes "load_data parse df = Loaded df'"
  shows "\<exists>cells ds.
     getitem df col_date = Inr cells \<and> to_datetime parse cells = Inr ds \<and>
     getitem df' col_date = Inr (map Stamp ds) \<and>
     getitem df' col_year = Inr (map (\<lambda>s. Num (of_nat (year_of s))) ds) \<and>
     getitem df' col_month = Inr (map (\<lambda>s. Num (of_nat (month_of s))) ds) \<and>
     getitem df' col_year_month = Inr (map (\<lambda>s. Text (period_str s)) ds) \<and>
     (\<forall>s\<in>set ds. \<forall>t\<in>set ds. valid_stamp s \<and> valid_stamp t \<longrightarrow>
        (period_str s = period_str t \<longleftrightarrow> year_of s = year_of t \<and> month_of s = month_of t) \<and>
        (period_str s < period_str t \<longleftrightarrow>
           year_of s < year_of t \<or> (year_of s = year_of t \<and> month_of s < month_of t)))"
proof -
  have req: "set required_columns \<subseteq> set (columns df)"
    using assms load_data_missing [of parse df]
    by (auto simp: load_data_def list_all_iff split: if_splits)
  then have "col_date \<in> set (columns df)" by (simp add: required_columns_def)
  then obtain cells where cells: "getitem df col_date = Inr cells"
    using getitem_Inr_iff by blast
  from load_data_converted [OF req cells, of parse] assms
  obtain ds where ds: "to_datetime parse cells = Inr ds" and df': "df' = derived_frame df ds"
    by (cases "to_datetime parse cells") simp_all
  have keys: "\<forall>s\<in>set ds. \<forall>t\<in>set ds. valid_stamp s \<and> valid_stamp t \<longrightarrow>
        (period_str s = period_str t \<longleftrightarrow> year_of s = year_of t \<and> month_of s = month_of t) \<and>
        (period_str s < period_str t \<longleftrightarrow>
           year_of s < year_of t \<or> (year_of s = year_of t \<and> month_of s < month_of t))"
    using period_str_eq_iff period_str_less_iff by blast
  from cells ds keys derived_frame_columns [of df ds] show ?thesis
    unfolding df' by blast
qed


theorem load_data_calendar_fields_witness:
  "load_data stamps_only sheet_sample = Loaded (derived_frame sheet_sample sample_stamps) \<and>
   getitem (derived_frame sheet_sample sample_stamps) col_year_month
     = Inr [Text ''2024-01'', Text ''2024-01'', Text ''2024-02''] \<and>
   getitem (derived_frame sheet_sample sample_stamps) col_year
     = Inr [Num 2024, Num 2024, Num 2024] \<and>
   getitem (derived_frame sheet_sample sample_stamps) col_month
     = Inr [Num 1, Num 1, Num 2] \<and>
   period_str \<lparr>year_of = 2024, month_of = 1, day_of = 1\<rparr>
     = period_str \<lparr>year_of = 2024, month_of = 1, day_of = 2\<rparr> \<and>
   period_str \<lparr>year_of = 2024, month_of = 1, day_of = 2\<rparr>
     < period_str \<lparr>year_of = 2024, month_of = 2, day_of = 1\<rparr>"
proof -
  note fields = load_data_calendar_fields [OF load_data_sheet_sample [of stamps_only]]
  obtain cells ds where
    c: "getitem sheet_sample col_date = Inr cells" and t: "to_datetime stamps_only cells = Inr ds"
    and cols: "getitem (derived_frame sheet_sample sample_stamps) col_year
        = Inr (map (\<lambda>s. Num (of_nat (year_of s))) ds)"
      "getitem (derived_frame sheet_sample sample_stamps) col_month
        = Inr (map (\<lambda>s. Num (of_nat (month_of s))) ds)"
      "getitem (derived_frame sheet_sample sample_stamps) col_year_month
        = Inr (map (\<lambda>s. Text (period_str s)) ds)"
    and keys: "\<forall>s\<in>set ds. \<forall>t\<in>set ds. valid_stamp s \<and> valid_stamp t \<longrightarrow>
        (period_str s = period_str t \<longleftrightarrow> year_of s = year_of t \<and> month_of s = month_of t) \<and>
        (period_str s < period_str t \<longleftrightarrow>
           year_of s < year_of t \<or> (year_of s = year_of t \<and> month_of s < month_of t))"
    using fields by (elim exE conjE) (rule that)
  from c have "cells = map Stamp sample_stamps"
    by (simp add: sheet_sample_date)
  with t have ds: "ds = sample_stamps"
    by (simp add: to_datetime_stamps)
  let ?a = "\<lparr>year_of = 2024, month_of = 1, day_of = 1\<rparr>"
  let ?b = "\<lparr>year_of = 2024, month_of = 1, day_of = 2\<rparr>"
  let ?c = "\<lparr>year_of = 2024, month_of = 2, day_of = 1\<rparr>"
  have mem: "?a \<in> set ds" "?b \<in> set ds" "?c \<in> set ds"
    by (simp_all add: ds sample_stamps_def)
  have valid: "valid_stamp ?a" "valid_stamp ?b" "valid_stamp ?c"
    by (simp_all add: valid_stamp_def)
  from keys mem(1,2) have "valid_stamp ?a \<and> valid_stamp ?b \<longrightarrow>
      (period_str ?a = period_str ?b \<longleftrightarrow> year_of ?a = year_of ?b \<and> month_of ?a = month_of ?b)"
    by blast
  with valid(1,2) have same: "period_str ?a = period_str ?b"
    by simp
  from keys mem(2,3) have "valid_stamp ?b \<and> valid_stamp ?c \<longrightarrow>
      (period_str ?b < period_str ?c \<longleftrightarrow>
         year_of ?b < year_of ?c \<or> (year_of ?b = year_of ?c \<and> month_of ?b < month_of ?c))"
    by blast
  with valid(2,3) have later: "period_str ?b < period_str ?c"
    by simp
  have "map (\<lambda>s. Text (period_str s)) sample_stamps = map Text (map period_str sample_stamps)"
    by simp
  then have ym: "map (\<lambda>s. Text (period_str s)) sample_stamps
      = [Text ''2024-01'', Text ''2024-01'', Text ''2024-02'']"
    by (simp only: period_str_sample) simp
  have ys: "map (\<lambda>s. Num (of_nat (year_of s))) sample_stamps = [Num 2024, Num 2024, Num 2024]"
    and ms: "map (\<lambda>s. Num (of_nat (month_of s))) sample_stamps = [Num 1, Num 1, Num 2]"
    by (simp_all add: sample_stamps_def)
  show ?thesis
  proof (intro conjI)
    show "load_data stamps_only sheet_sample = Loaded (derived_frame sheet_sample sample_stamps)"
      by (rule load_data_sheet_sample)
    show "getitem (derived_frame sheet_sample sample_stamps) col_year_month
        = Inr [Text ''2024-01'', Text ''2024-01'', Text ''2024-02'']"
      using cols(3) unfolding ds ym .
    show "getitem (derived_frame sheet_sample sample_stamps) col_year
        = Inr [Num 2024, Num 2024, Num 2024]"
      using cols(1) unfolding ds ys .
    show "getitem (derived_frame sheet_sample sample_stamps) col_month = Inr [Num 1, Num 1, Num 2]"
      using cols(2) unfolding ds ms .
    show "period_str ?a = period_str ?b" by (rule same)
    show "period_str ?b < period_str ?c" by (rule later)
  qed
qed

subsection \<open>Which frames the functions write to\<close>

lemma columns_setitem:
  "columns (setitem df c v) = (if c \<in> set (columns df) then columns df else columns df @ [c])"
  by (induction df) (force simp: columns_def)+

lemma assign_dates_done:
  assumes "assign_dates parse h df = (h', Inr u)" and "df < length h"
  shows "\<exists>cells ds. getitem (h ! df) col_date = Inr cells \<and> to_datetime parse cells = Inr ds \<and>
     h' = h[df := setitem (setitem (h ! df) col_date (map Stamp ds)) col_year_month (map to_period ds)]"
proof -
  from assms(1) obtain cells where cells: "getitem (h ! df) col_date = Inr cells"
    by (cases "getitem (h ! df) col_date") (simp_all add: assign_dates_def)
  from assms(1) cells obtain ds where ds: "to_datetime parse cells = Inr ds"
    by (cases "to_datetime parse cells") (simp_all add: assign_dates_def)
  let ?d1 = "setitem (h ! df) col_date (map Stamp ds)"
  have "assign_from_dt ?d1 col_year_month to_period
      = Inr (setitem ?d1 col_year_month (map to_period ds))"
    by (rule assign_from_dt_stamps) (rule getitem_setitem_same)
  with assms cells ds have "h' = h[df := setitem ?d1 col_year_month (map to_period ds)]"
    by (simp add: assign_dates_def Let_def)
  with cells ds show ?thesis by blast
qed

lemma assign_dates_others:
  assumes "assign_dates parse h df = (h', u)"
  shows "length h' = length h \<and> (\<forall>r. r \<noteq> df \<longrightarrow> h' ! r = h ! r)"
  using assms
  by (auto simp: assign_dates_def Let_def split: sum.splits)

lemma visualize_monthly_run:
  assumes "visualize_create_monthly_trend_chart parse h df = (h', res)"
  shows "\<exists>u. assign_dates parse h df = (h', u) \<and> ((\<exists>ms. res = Inr ms) \<longrightarrow> u = Inr ())"
  using assms
  by (auto simp: visualize_create_monthly_trend_chart_def split: prod.splits sum.splits)

lemma visualize_pivot_run:
  assumes "visualize_create_category_monthly_trend_chart parse h df = (h', res)"
  shows "\<exists>u. assign_dates parse h df = (h', u) \<and> ((\<exists>pv. res = Inr pv) \<longrightarrow> u = Inr ())"
  using assms
  by (auto simp: visualize_create_category_monthly_trend_chart_def split: prod.splits sum.splits)

lemma create_top_expenses_table_store:
  assumes "create_top_expenses_table strftime money h df n = (h', res)"
  shows "take (length h) h' = h \<and> (\<forall>r. res = Inr r \<longrightarrow> length h \<le> r \<and> r < length h')"
  using assms
  by (auto simp: create_top_expenses_table_def Let_def split: sum.splits)


lemma visualize_monthly_sample:
  "visualize_create_monthly_trend_chart stamps_only [sheet_sample] 0
     = ([sheet_with_months], Inr [(648, 180), (649, 280)])"
  by code_simp

lemma assign_dates_frame:
  assumes "assign_dates parse h df = (h', Inr u)" and "df < length h"
  shows "\<exists>cells ds. getitem (h ! df) col_date = Inr cells \<and> to_datetime parse cells = Inr ds \<and>
     h' ! df = setitem (setitem (h ! df) col_date (map Stamp ds))
                 col_year_month (map to_period ds)"
proof -
  from assign_dates_done [OF assms] obtain cells ds where
    "getitem (h ! df) col_date = Inr cells" "to_datetime parse cells = Inr ds"
    and h': "h' = h[df := setitem (setitem (h ! df) col_date (map Stamp ds))
                        col_year_month (map to_period ds)]"
    by blast
  moreover from h' assms(2) have "h' ! df = setitem (setitem (h ! df) col_date (map Stamp ds))
                 col_year_month (map to_period ds)" by simp
  ultimately show ?thesis by blast
qed

lemma top_expenses_sample_ref:
  "snd (create_top_expenses_table (\<lambda>s. ''2024'') (\<lambda>q. ''$'') [sheet_sample] 0 2) = Inr 2"
  by code_simp

lemma top_expenses_sample:
  "\<exists>h'. create_top_expenses_table (\<lambda>s. ''2024'') (\<lambda>q. ''$'') [sheet_sample] 0 2 = (h', Inr 2)"
  using top_expenses_sample_ref by (metis prod.collapse)

text \<open>
  C9 (as stated, refuted): the claim says that every aggregation leaves its input frame
  unchanged and adds no column to it. The monthly summary of visualize_expenses.py
  assigns to two columns of the frame it is given: called on the sample sheet (columns
  date, item, amount, category) it leaves the caller's frame with a fifth column, the
  year-month Periods.
\<close>

theorem visualize_assigns_counterexample:
  "visualize_create_monthly_trend_chart stamps_only [sheet_sample] 0
     = ([sheet_with_months], Inr [(648, 180), (649, 280)]) \<and>
   columns sheet_sample = [col_date, col_item, col_amount, col_category] \<and>
   columns sheet_with_months = [col_date, col_item, col_amount, col_category, col_year_month] \<and>
   sheet_with_months \<noteq> sheet_sample"
proof (intro conjI)
  show "visualize_create_monthly_trend_chart stamps_only [sheet_sample] 0
     = ([sheet_with_months], Inr [(648, 180), (649, 280)])"
    by (rule visualize_monthly_sample)
qed (simp_all add: columns_def sheet_with_months_def sheet_sample_def)

text \<open>
  C9 (amended): the top-expenses table of dashboard.py leaves every frame that existed
  before the call unchanged and returns a frame allocated during the call. The monthly
  summary and the month-by-category pivot of visualize_expenses.py write to the frame
  they are given and to no other, whether they return or raise; when they return, that
  frame is the one they were given with its date column replaced by the conversion of
  that very column and with the year-month column holding the monthly Periods of the
  converted dates.
\<close>

theorem store_effects:
  assumes "df < length h"
  shows "(\<forall>strftime money n h' res.
            create_top_expenses_table strftime money h df n = (h', res) \<longrightarrow>
            take (length h) h' = h \<and> (\<forall>r. res = Inr r \<longrightarrow> length h \<le> r \<and> r < length h')) \<and>
         (\<forall>parse h' res.
            visualize_create_monthly_trend_chart parse h df = (h', res) \<longrightarrow>
            length h' = length h \<and> (\<forall>r. r \<noteq> df \<longrightarrow> h' ! r = h ! r) \<and>
            ((\<exists>ms. res = Inr ms) \<longrightarrow>
               (\<exists>cells ds. getitem (h ! df) col_date = Inr cells \<and>
                  to_datetime parse cells = Inr ds \<and>
                  h' ! df = setitem (setitem (h ! df) col_date (map Stamp ds))
                              col_year_month (map to_period ds)))) \<and>
         (\<forall>parse h' res.
            visualize_create_category_monthly_trend_chart parse h df = (h', res) \<longrightarrow>
            length h' = length h \<and> (\<forall>r. r \<noteq> df \<longrightarrow> h' ! r = h ! r) \<and>
            ((\<exists>pv. res = Inr pv) \<longrightarrow>
               (\<exists>cells ds. getitem (h ! df) col_date = Inr cells \<and>
                  to_datetime parse cells = Inr ds \<and>
                  h' ! df = setitem (setitem (h ! df) col_date (map Stamp ds))
                              col_year_month (map to_period ds))))"
proof -
  have top: "\<forall>strftime money n h' res.
            create_top_expenses_table strftime money h df n = (h', res) \<longrightarrow>
            take (length h) h' = h \<and> (\<forall>r. res = Inr r \<longrightarrow> length h \<le> r \<and> r < length h')"
    using create_top_expenses_table_store by blast
  have monthly: "\<forall>parse h' res.
            visualize_create_monthly_trend_chart parse h df = (h', res) \<longrightarrow>
            length h' = length h \<and> (\<forall>r. r \<noteq> df \<longrightarrow> h' ! r = h ! r) \<and>
            ((\<exists>ms. res = Inr ms) \<longrightarrow>
               (\<exists>cells ds. getitem (h ! df) col_date = Inr cells \<and>
                  to_datetime parse cells = Inr ds \<and>
                  h' ! df = setitem (setitem (h ! df) col_date (map Stamp ds))
                              col_year_month (map to_period ds)))"
  proof (intro allI impI)
    fix parse h' res
    assume run: "visualize_create_monthly_trend_chart parse h df = (h', res)"
    from visualize_monthly_run [OF run] obtain u where a: "assign_dates parse h df = (h', u)"
      and ok: "(\<exists>ms. res = Inr ms) \<longrightarrow> u = Inr ()" by blast
    note others = assign_dates_others [OF a]
    have "(\<exists>ms. res = Inr ms) \<longrightarrow>
       (\<exists>cells ds. getitem (h ! df) col_date = Inr cells \<and>
          to_datetime parse cells = Inr ds \<and>
          h' ! df = setitem (setitem (h ! df) col_date (map Stamp ds))
                      col_year_month (map to_period ds))"
      using assign_dates_frame [OF _ assms] a ok by blast
    with others show "length h' = length h \<and> (\<forall>r. r \<noteq> df \<longrightarrow> h' ! r = h ! r) \<and>
            ((\<exists>ms. res = Inr ms) \<longrightarrow>
               (\<exists>cells ds. getitem (h ! df) col_date = Inr cells \<and>
                  to_datetime parse cells = Inr ds \<and>
                  h' ! df = setitem (setitem (h ! df) col_date (map Stamp ds))
                              col_year_month (map to_period ds)))"
      by (intro conjI) (rule conjunct1, assumption, rule conjunct2, assumption, assumption)
  qed
  have pivot: "\<forall>parse h' res.
            visualize_create_category_monthly_trend_chart parse h df = (h', res) \<longrightarrow>
            length h' = length h \<and> (\<forall>r. r \<noteq> df \<longrightarrow> h' ! r = h ! r) \<and>
            ((\<exists>pv. res = Inr pv) \<longrightarrow>
               (\<exists>cells ds. getitem (h ! df) col_date = Inr cells \<and>
                  to_datetime parse cells = Inr ds \<and>
                  h' ! df = setitem (setitem (h ! df) col_date (map Stamp ds))
                              col_year_month (map to_period ds)))"
  proof (intro allI impI)
    fix parse h' res
    assume run: "visualize_create_category_monthly_trend_chart parse h df = (h', res)"
    from visualize_pivot_run [OF run] obtain u where a: "assign_dates parse h df = (h', u)"
      and ok: "(\<exists>pv. res = Inr pv) \<longrightarrow> u = Inr ()" by blast
    note others = assign_dates_others [OF a]
    have "(\<exists>pv. res = Inr pv) \<longrightarrow>
       (\<exists>cells ds. getitem (h ! df) col_date = Inr cells \<and>
          to_datetime parse cells = Inr ds \<and>
          h' ! df = setitem (setitem (h ! df) col_date (map Stamp ds))
                      col_year_month (map to_period ds))"
      using assign_dates_frame [OF _ assms] a ok by blast
    with others show "length h' = length h \<and> (\<forall>r. r \<noteq> df \<longrightarrow> h' ! r = h ! r) \<and>
            ((\<exists>pv. res = Inr pv) \<longrightarrow>
               (\<exists>cells ds. getitem (h ! df) col_date = Inr cells \<and>
                  to_datetime parse cells = Inr ds \<and>
                  h' ! df = setitem (setitem (h ! df) col_date (map Stamp ds))
                              col_year_month (map to_period ds)))"
      by (intro conjI) (rule conjunct1, assumption, rule conjunct2, assumption, assumption)
  qed
  from top monthly pivot show ?thesis by (intro conjI)
qed

theorem store_effects_witness:
  "(\<exists>h'. create_top_expenses_table (\<lambda>s. ''2024'') (\<lambda>q. ''$'') [sheet_sample] 0 2 = (h', Inr 2) \<and>
      take 1 h' = [sheet_sample] \<and> 2 < length h') \<and>
   to_datetime stamps_only (map Stamp sample_stamps) = Inr sample_stamps \<and>
   sheet_with_months =
     setitem (setitem sheet_sample col_date (map Stamp sample_stamps))
       col_year_month (map to_period sample_stamps)"
proof -
  have len: "0 < length [sheet_sample]" by simp
  note eff = store_effects [OF len]
  from top_expenses_sample obtain h' where
    t: "create_top_expenses_table (\<lambda>s. ''2024'') (\<lambda>q. ''$'') [sheet_sample] 0 2 = (h', Inr 2)" ..
  from conjunct1 [OF eff, rule_format, OF t]
  have "take 1 h' = [sheet_sample]" and "2 < length h'"
    by simp_all
  with t have first: "\<exists>h'. create_top_expenses_table (\<lambda>s. ''2024'') (\<lambda>q. ''$'') [sheet_sample] 0 2
      = (h', Inr 2) \<and> take 1 h' = [sheet_sample] \<and> 2 < length h'"
    by blast
  from conjunct1 [OF conjunct2 [OF eff], rule_format, OF visualize_monthly_sample]
  obtain cells ds where c: "getitem ([sheet_sample] ! 0) col_date = Inr cells"
    and d: "to_datetime stamps_only cells = Inr ds"
    and f: "[sheet_with_months] ! 0 = setitem (setitem ([sheet_sample] ! 0) col_date (map Stamp ds))
                      col_year_month (map to_period ds)"
    by blast
  from c have cells: "cells = map Stamp sample_stamps" by (simp add: sheet_sample_date)
  with d have ds: "ds = sample_stamps" by (simp add: to_datetime_stamps)
  from d f have "to_datetime stamps_only (map Stamp sample_stamps) = Inr sample_stamps"
    and "sheet_with_months =
     setitem (setitem sheet_sample col_date (map Stamp sample_stamps))
       col_year_month (map to_period sample_stamps)"
    by (simp_all add: cells ds)
  with first show ?thesis by blast
qed

end
